theory Spec2Isabelle
  imports Complex_Main
begin

section \<open>JavaScript values\<close>

text \<open>
  The scripts handle values parsed from JSON (the server's pages, the keyfile) and values
  from the command line. A parsed object is an association list of its own properties.
  Strings are lists of code units; \<^typ>\<open>char\<close> covers the code units 0 to 255.
  Numbers are the integer-valued ones: every number the scripts compute (lengths, offsets)
  is an integer, and so is \<open>Number.MAX_VALUE\<close>. Reading a property can also reach an
  object of the runtime, a function or a prototype, through the prototype chain: such an
  object is a \<open>JBuiltin\<close>, with a number that names it and the string it converts to.
\<close>

datatype jsval =
    JUndefined
  | JNull
  | JBool bool
  | JNum int
  | JStr string
  | JArr "jsval list"
  | JObj "(string \<times> jsval) list"
  | JBuiltin nat string

datatype error = TypeError

text \<open>\<open>ToBoolean\<close>: what \<open>value && ...\<close> and \<open>filters ? ... : ...\<close> test.\<close>

fun truthy :: "jsval \<Rightarrow> bool" where
  "truthy JUndefined = False"
| "truthy JNull = False"
| "truthy (JBool b) = b"
| "truthy (JNum n) = (n \<noteq> 0)"
| "truthy (JStr s) = (s \<noteq> [])"
| "truthy (JArr xs) = True"
| "truthy (JObj kvs) = True"
| "truthy (JBuiltin h s) = True"

subsection \<open>Decimal notation\<close>

definition digit_char :: "nat \<Rightarrow> char" where
  "digit_char d = ''0123456789ABCDEF'' ! d"

fun dec_nat :: "nat \<Rightarrow> string" where
  "dec_nat n = (if n < 10 then [digit_char n] else dec_nat (n div 10) @ [digit_char (n mod 10)])"

declare dec_nat.simps [simp del]

definition dec_int :: "int \<Rightarrow> string" where
  "dec_int i = (if i < 0 then CHR ''-'' # dec_nat (nat (- i)) else dec_nat (nat i))"

subsection \<open>Property access\<close>

text \<open>
  An array index is a property name in canonical decimal form; \<open>array_index n key\<close> finds
  the index below \<open>n\<close> that \<open>key\<close> names, if any.
\<close>

definition array_index :: "nat \<Rightarrow> string \<Rightarrow> nat option" where
  "array_index n key = List.find (\<lambda>i. dec_nat i = key) [0..<n]"

text \<open>
  \<open>x[key]\<close>. Reading a property of \<open>undefined\<close> or \<open>null\<close> throws a \<open>TypeError\<close>.
  An own property is read from the value itself: the keys of an object, the indices and the
  \<open>length\<close> of an array or a string. Any other name is looked up along the prototype chain,
  which belongs to the runtime: \<open>proto v key\<close> is what the runtime finds for \<open>key\<close> on
  \<open>v\<close>, \<open>undefined\<close> when it finds nothing, and it answers every read on an object of its
  own. It is a parameter of everything that reads a property. No prototype of a number, a
  boolean or an object has a \<open>length\<close>, so that name is never looked up for them. An
  inherited accessor that throws is not covered: \<open>proto\<close> always gives a value.
\<close>

fun get_prop :: "(jsval \<Rightarrow> string \<Rightarrow> jsval) \<Rightarrow> jsval \<Rightarrow> string \<Rightarrow> error + jsval" where
  "get_prop proto JUndefined key = Inl TypeError"
| "get_prop proto JNull key = Inl TypeError"
| "get_prop proto (JBool b) key =
     (if key = ''length'' then Inr JUndefined else Inr (proto (JBool b) key))"
| "get_prop proto (JNum n) key =
     (if key = ''length'' then Inr JUndefined else Inr (proto (JNum n) key))"
| "get_prop proto (JStr s) key =
     (if key = ''length'' then Inr (JNum (int (length s)))
      else case array_index (length s) key of
             Some i \<Rightarrow> Inr (JStr [s ! i])
           | None \<Rightarrow> Inr (proto (JStr s) key))"
| "get_prop proto (JArr xs) key =
     (if key = ''length'' then Inr (JNum (int (length xs)))
      else case array_index (length xs) key of
             Some i \<Rightarrow> Inr (xs ! i)
           | None \<Rightarrow> Inr (proto (JArr xs) key))"
| "get_prop proto (JObj kvs) key =
     (case map_of kvs key of
        Some v \<Rightarrow> Inr v
      | None \<Rightarrow> if key = ''length'' then Inr JUndefined else Inr (proto (JObj kvs) key))"
| "get_prop proto (JBuiltin h s) key = Inr (proto (JBuiltin h s) key)"

subsection \<open>Conversion to string\<close>

text \<open>
  \<open>ToString\<close>, which a template literal applies to each substitution. A number is
  written in decimal notation, as JavaScript writes the integers below \<open>10\<^sup>2\<^sup>1\<close>. An array
  is its elements joined by commas, with \<open>undefined\<close> and \<open>null\<close> elements left empty.
\<close>

fun join_with :: "string \<Rightarrow> string list \<Rightarrow> string" where
  "join_with sep [] = []"
| "join_with sep [x] = x"
| "join_with sep (x # y # ys) = x @ sep @ join_with sep (y # ys)"

fun to_string :: "jsval \<Rightarrow> string" where
  "to_string JUndefined = ''undefined''"
| "to_string JNull = ''null''"
| "to_string (JBool b) = (if b then ''true'' else ''false'')"
| "to_string (JNum n) = dec_int n"
| "to_string (JStr s) = s"
| "to_string (JArr xs) =
     join_with '','' (map (\<lambda>x. if x = JUndefined \<or> x = JNull then [] else to_string x) xs)"
| "to_string (JObj kvs) = ''[object Object]''"
| "to_string (JBuiltin h s) = s"

subsection \<open>Relational comparison\<close>

text \<open>
  \<open>>=\<close> and \<open><=\<close> first make both operands primitive. Two strings are then compared by
  code units; otherwise both become numbers, and a comparison with \<open>NaN\<close> is false.
  The conversion of a string to a number belongs to the runtime and is a parameter
  \<open>s2n\<close> of everything that compares.
\<close>

datatype jsnum = NaN | NegInf | Fin rat | PosInf

fun num_lt :: "jsnum \<Rightarrow> jsnum \<Rightarrow> bool option" where
  "num_lt NaN y = None"
| "num_lt x NaN = None"
| "num_lt x NegInf = Some False"
| "num_lt PosInf y = Some False"
| "num_lt NegInf y = Some True"
| "num_lt x PosInf = Some True"
| "num_lt (Fin a) (Fin b) = Some (a < b)"

fun str_lt :: "string \<Rightarrow> string \<Rightarrow> bool" where
  "str_lt [] [] = False"
| "str_lt [] (b # bs) = True"
| "str_lt (a # as) [] = False"
| "str_lt (a # as) (b # bs) =
     (if a = b then str_lt as bs else (of_char a :: nat) < of_char b)"

fun to_primitive :: "jsval \<Rightarrow> jsval" where
  "to_primitive (JArr xs) = JStr (to_string (JArr xs))"
| "to_primitive (JObj kvs) = JStr (to_string (JObj kvs))"
| "to_primitive (JBuiltin h s) = JStr s"
| "to_primitive v = v"

fun to_number :: "(string \<Rightarrow> jsnum) \<Rightarrow> jsval \<Rightarrow> jsnum" where
  "to_number s2n JUndefined = NaN"
| "to_number s2n JNull = Fin 0"
| "to_number s2n (JBool b) = Fin (if b then 1 else 0)"
| "to_number s2n (JNum n) = Fin (of_int n)"
| "to_number s2n (JStr s) = s2n s"
| "to_number s2n (JArr xs) = s2n (to_string (JArr xs))"
| "to_number s2n (JObj kvs) = s2n (to_string (JObj kvs))"
| "to_number s2n (JBuiltin h s) = s2n s"

text \<open>\<open>x < y\<close> with \<open>None\<close> for the undefined outcome.\<close>

definition js_lt :: "(string \<Rightarrow> jsnum) \<Rightarrow> jsval \<Rightarrow> jsval \<Rightarrow> bool option" where
  "js_lt s2n x y =
     (case (to_primitive x, to_primitive y) of
        (JStr a, JStr b) \<Rightarrow> Some (str_lt a b)
      | (px, py) \<Rightarrow> num_lt (to_number s2n px) (to_number s2n py))"

definition js_ge :: "(string \<Rightarrow> jsnum) \<Rightarrow> jsval \<Rightarrow> jsval \<Rightarrow> bool" where
  "js_ge s2n x y = (js_lt s2n x y = Some False)"

definition js_le :: "(string \<Rightarrow> jsnum) \<Rightarrow> jsval \<Rightarrow> jsval \<Rightarrow> bool" where
  "js_le s2n x y = (js_lt s2n y x = Some False)"

section \<open>The search script\<close>

text \<open>Number of objects to get in one chunk.\<close>

definition CHUNK_SIZE :: nat where
  "CHUNK_SIZE = 500"

subsection \<open>\<open>encodedURIComponent\<close>\<close>

text \<open>
  The built-in \<open>encodeURIComponent\<close> keeps letters, digits and \<open>- _ . ! ~ * ' ( )\<close> and
  writes every other code unit as the percent-escaped bytes of its UTF-8 form: one byte
  below 128, two bytes from 128 to 255.
\<close>

definition uri_unreserved :: "char \<Rightarrow> bool" where
  "uri_unreserved c \<longleftrightarrow>
     c \<in> set (CHR 0x27 #
       ''ABCDEFGHIJKLMNOPQRSTUVWXYZabcdefghijklmnopqrstuvwxyz0123456789-_.!~*()'')"

definition pct :: "nat \<Rightarrow> string" where
  "pct b = [CHR ''%'', digit_char (b div 16), digit_char (b mod 16)]"

definition uri_escape :: "char \<Rightarrow> string" where
  "uri_escape c =
     (let n = (of_char c :: nat) in
      if uri_unreserved c then [c]
      else if n < 128 then pct n
      else pct (192 + n div 64) @ pct (128 + n mod 64))"

definition encodeURIComponent :: "string \<Rightarrow> string" where
  "encodeURIComponent s = concat (map uri_escape s)"

text \<open>
  \<open>s.replace(/pat/g, rep)\<close> for a pattern without metacharacters: the matches are found
  from left to right and do not overlap.
\<close>

fun replace_all :: "string \<Rightarrow> string \<Rightarrow> string \<Rightarrow> string" where
  "replace_all pat rep [] = []"
| "replace_all pat rep (c # cs) =
     (if pat \<noteq> [] \<and> take (length pat) (c # cs) = pat
      then rep @ replace_all pat rep (drop (length pat) (c # cs))
      else c # replace_all pat rep cs)"

definition encodedURIComponent :: "string \<Rightarrow> string" where
  "encodedURIComponent v =
     replace_all ''%20'' ''+''
       (replace_all ''%3A'' '':''
         (replace_all '')'' ''%29''
           (replace_all ''('' ''%28'' (encodeURIComponent v))))"

subsection \<open>\<open>getObjectFieldValue\<close>\<close>

text \<open>\<open>field.split('.')\<close>: never empty; a string without a dot is the only part.\<close>

fun split_dot :: "string \<Rightarrow> string list" where
  "split_dot [] = [[]]"
| "split_dot (c # cs) =
     (if c = CHR ''.'' then [] # split_dot cs
      else case split_dot cs of
             [] \<Rightarrow> [[c]]
           | p # ps \<Rightarrow> (c # p) # ps)"

text \<open>The callback of the \<open>reduce\<close>: \<open>partObject && partObject[part]\<close>.\<close>

definition reduce_part ::
  "(jsval \<Rightarrow> string \<Rightarrow> jsval) \<Rightarrow> error + jsval \<Rightarrow> string \<Rightarrow> error + jsval" where
  "reduce_part proto acc part =
     (case acc of
        Inl e \<Rightarrow> Inl e
      | Inr partObject \<Rightarrow> if truthy partObject then get_prop proto partObject part else Inr partObject)"

definition getObjectFieldValue ::
  "(jsval \<Rightarrow> string \<Rightarrow> jsval) \<Rightarrow> jsval \<Rightarrow> string \<Rightarrow> error + jsval" where
  "getObjectFieldValue proto object field =
     (let parts = split_dot field in
      if length parts = 1 then get_prop proto object field
      else foldl (reduce_part proto) (Inr object) parts)"

subsection \<open>The field whose length is filtered\<close>

text \<open>\<open>s.lastIndexOf(c)\<close> is \<open>-1\<close> when \<open>c\<close> does not occur.\<close>

fun lastIndexOf :: "string \<Rightarrow> char \<Rightarrow> int" where
  "lastIndexOf [] c = - 1"
| "lastIndexOf (x # xs) c =
     (let r = lastIndexOf xs c in
      if r \<ge> 0 then r + 1 else if x = c then 0 else - 1)"

text \<open>\<open>s.substring(0, e)\<close>: a negative end counts as 0, an end past the string as its length.\<close>

definition substring0 :: "string \<Rightarrow> int \<Rightarrow> string" where
  "substring0 s e = take (nat (max 0 e)) s"

definition includes_char :: "string \<Rightarrow> char \<Rightarrow> bool" where
  "includes_char s c \<longleftrightarrow> c \<in> set s"

text \<open>Line 306, in the script with the \<open>--filter\<close> option.\<close>

definition lengthField :: "string \<Rightarrow> string" where
  "lengthField field =
     (if includes_char field CHR ''.'' then substring0 field (lastIndexOf field CHR ''.'') else field)"

text \<open>Line 123, in the script without the \<open>--filter\<close> option.\<close>

definition lengthField_first :: "string \<Rightarrow> string" where
  "lengthField_first field = substring0 field (lastIndexOf field CHR ''.'')"

subsection \<open>\<open>getChunk\<close>\<close>

text \<open>
  What the script does to the outside world is recorded as a list of events: the requests
  it sends, the lines it logs and the calls to the progress bar.
\<close>

record request =
  url :: string  http_method :: string
  headers :: "(string \<times> string) list"

text \<open>
  What comes back for one request: the request fails, or a response arrives with its
  \<open>ok\<close> flag and a body that parses as JSON (\<open>Some\<close>) or does not (\<open>None\<close>).
\<close>

datatype response = NetworkError | HttpResponse bool "jsval option"

datatype event =
    LogRequest string string string string
  | LogResponse response
  | LogError
  | Fetch request
  | ProgressStart jsval nat
  | ProgressUpdate nat
  | ProgressStop
  | Print string

definition searchUrl :: "string \<Rightarrow> string \<Rightarrow> string \<Rightarrow> string \<Rightarrow> nat \<Rightarrow> string" where
  "searchUrl host type field filters from' =
     host @ ''/report/?type='' @ type @ (if filters \<noteq> [] then ''&'' @ filters else [])
       @ ''&limit='' @ dec_nat CHUNK_SIZE @ ''&from='' @ dec_nat from'
       @ ''&field='' @ encodedURIComponent field"

text \<open>
  \<open>getChunk\<close> sends one request and resolves to the parsed page. A failed request, a
  response that is not \<open>ok\<close> and a body that does not parse all end in the \<open>catch\<close>,
  which logs and returns nothing: the promise resolves to \<open>undefined\<close>.
\<close>

definition getChunk ::
  "string \<Rightarrow> string \<Rightarrow> string \<Rightarrow> string \<Rightarrow> string \<Rightarrow> nat \<Rightarrow> bool \<Rightarrow> response
     \<Rightarrow> event list \<times> jsval" where
  "getChunk host auth type field filters from' debug resp =
     (let u = searchUrl host type field filters from';
          req = \<lparr>url = u, http_method = ''GET'',
                 headers = [(''Accept'', ''application/json''),
                            (''Content-Type'', ''application/json'')]\<rparr>
      in ((if debug then [LogRequest host type field u] else []) @ [Fetch req] @
          (case resp of
             NetworkError \<Rightarrow> [LogError]
           | HttpResponse ok body \<Rightarrow>
               (if debug then [LogResponse resp] else []) @
               (if ok \<and> body \<noteq> None then [] else [LogError])),
          (case resp of
             HttpResponse True (Some v) \<Rightarrow> v
           | _ \<Rightarrow> JUndefined)))"

subsection \<open>\<open>getAllChunks\<close>\<close>

text \<open>The callback of \<open>forEach\<close>, with the \<open>results\<close> array passed through.\<close>

definition visit ::
  "(jsval \<Rightarrow> string \<Rightarrow> jsval) \<Rightarrow> (string \<Rightarrow> jsnum) \<Rightarrow> string \<Rightarrow> jsval \<Rightarrow> jsval \<Rightarrow> string list \<Rightarrow> jsval
     \<Rightarrow> error + string list" where
  "visit proto s2n field less' greater' results obj =
     (case getObjectFieldValue proto obj (lengthField field) of
        Inl e \<Rightarrow> Inl e
      | Inr val \<Rightarrow>
          if \<not> truthy val then Inr results
          else (case get_prop proto val ''length'' of
                  Inl e \<Rightarrow> Inl e
                | Inr len \<Rightarrow>
                    if js_ge s2n len greater' \<and> js_le s2n len less'
                    then (case get_prop proto obj ''@id'' of
                            Inl e \<Rightarrow> Inl e
                          | Inr ident \<Rightarrow>
                              Inr (results @ [to_string ident @ '' - '' @ to_string len]))
                    else Inr results))"

fun forEach_visit ::
  "(jsval \<Rightarrow> string \<Rightarrow> jsval) \<Rightarrow> (string \<Rightarrow> jsnum) \<Rightarrow> string \<Rightarrow> jsval \<Rightarrow> jsval \<Rightarrow> string list \<Rightarrow> jsval list
     \<Rightarrow> error + string list" where
  "forEach_visit proto s2n field less' greater' results [] = Inr results"
| "forEach_visit proto s2n field less' greater' results (obj # objs) =
     (case visit proto s2n field less' greater' results obj of
        Inl e \<Rightarrow> Inl e
      | Inr results' \<Rightarrow> forEach_visit proto s2n field less' greater' results' objs)"

text \<open>
  The variables of \<open>getAllChunks\<close>, with the events so far. The offset \<open>from\<close> is a
  natural number; the script's own arithmetic on it is exact below \<open>2\<^sup>5\<^sup>3\<close>.
\<close>

record loop_state =
  from_ix :: nat
  total :: jsval
  results :: "string list"
  trace :: "event list"

text \<open>
  One turn of the \<open>while\<close> loop, given the response to its request. An uncaught
  exception ends the run (\<open>Crash\<close>, with the events so far); an empty \<open>@graph\<close> ends
  the loop normally (\<open>Return\<close>); otherwise the next turn follows (\<open>Continue\<close>).
\<close>

datatype step = Crash error "event list" | Return loop_state | Continue loop_state

definition loop_body ::
  "(jsval \<Rightarrow> string \<Rightarrow> jsval) \<Rightarrow> (string \<Rightarrow> jsnum) \<Rightarrow> string \<Rightarrow> string \<Rightarrow> string \<Rightarrow> string \<Rightarrow> string \<Rightarrow> jsval \<Rightarrow> jsval
     \<Rightarrow> bool \<Rightarrow> response \<Rightarrow> loop_state \<Rightarrow> step" where
  "loop_body proto s2n host auth type field filters less' greater' debug resp st =
     (let (evs, chunk) = getChunk host auth type field filters (from_ix st) debug resp;
          st1 = st\<lparr>trace := trace st @ evs\<rparr>
      in case get_prop proto chunk ''@graph'' of
           Inl e \<Rightarrow> Crash e (trace st1)
         | Inr graph \<Rightarrow>
            (case get_prop proto graph ''length'' of
               Inl e \<Rightarrow> Crash e (trace st1)
             | Inr len \<Rightarrow>
                 if len = JNum 0 then Return st1
                 else
                   (case (if total st1 = JNum 0
                          then (case get_prop proto chunk ''total'' of
                                  Inl e \<Rightarrow> Inl e
                                | Inr t \<Rightarrow>
                                    Inr (st1\<lparr>total := t,
                                             trace := trace st1 @ [ProgressStart t 0]\<rparr>))
                          else Inr st1) of
                      Inl e \<Rightarrow> Crash e (trace st1)
                    | Inr st2 \<Rightarrow>
                       (case graph of
                          JArr objs \<Rightarrow>
                            (case forEach_visit proto s2n field less' greater' (results st2) objs of
                               Inl e \<Rightarrow> Crash e (trace st2)
                             | Inr results' \<Rightarrow>
                                 Continue (st2\<lparr>from_ix := from_ix st2 + CHUNK_SIZE,
                                               results := results',
                                               trace := trace st2 @
                                                 [ProgressUpdate (from_ix st2 + CHUNK_SIZE)]\<rparr>))
                        | _ \<Rightarrow> Crash TypeError (trace st2)))))"

text \<open>
  The loop itself. The server is the sequence of its responses, \<open>server n\<close> answering the
  \<open>n\<close>-th request. The loop need not end, so the result is an \<open>option\<close>: \<open>None\<close> when
  it runs forever, otherwise the events together with the exception or the results.
\<close>

partial_function (option) getAllChunks_loop ::
  "(jsval \<Rightarrow> string \<Rightarrow> jsval) \<Rightarrow> (string \<Rightarrow> jsnum) \<Rightarrow> string \<Rightarrow> string \<Rightarrow> string \<Rightarrow> string \<Rightarrow> string \<Rightarrow> jsval \<Rightarrow> jsval
     \<Rightarrow> bool \<Rightarrow> (nat \<Rightarrow> response) \<Rightarrow> nat \<Rightarrow> loop_state
     \<Rightarrow> (event list \<times> (error + string list)) option" where
  "getAllChunks_loop proto s2n host auth type field filters less' greater' debug server n st =
     (case loop_body proto s2n host auth type field filters less' greater' debug (server n) st of
        Crash e tr \<Rightarrow> Some (tr, Inl e)
      | Return st' \<Rightarrow> Some (trace st', Inr (results st'))
      | Continue st' \<Rightarrow>
          getAllChunks_loop proto s2n host auth type field filters less' greater' debug server (Suc n) st')"

declare getAllChunks_loop.simps [code]

definition getAllChunks ::
  "(jsval \<Rightarrow> string \<Rightarrow> jsval) \<Rightarrow> (string \<Rightarrow> jsnum) \<Rightarrow> string \<Rightarrow> string \<Rightarrow> string \<Rightarrow> string \<Rightarrow> string \<Rightarrow> jsval \<Rightarrow> jsval
     \<Rightarrow> bool \<Rightarrow> (nat \<Rightarrow> response) \<Rightarrow> (event list \<times> (error + string list)) option" where
  "getAllChunks proto s2n host auth type field filters less' greater' debug server =
     getAllChunks_loop proto s2n host auth type field filters less' greater' debug server 0
       \<lparr>from_ix = 0, total = JNum 0, results = [], trace = []\<rparr>"

subsection \<open>\<open>keypairToAuth\<close>\<close>

text \<open>
  \<open>unescape(encodeURIComponent(s))\<close> is the string whose code units are the bytes of the
  UTF-8 form of \<open>s\<close>; \<open>Buffer.from\<close> turns a string into the bytes of its UTF-8 form;
  \<open>toString('base64')\<close> writes bytes in base 64 with padding.
\<close>

definition utf8_bytes :: "string \<Rightarrow> nat list" where
  "utf8_bytes s =
     concat (map (\<lambda>c. let n = (of_char c :: nat) in
                        if n < 128 then [n] else [192 + n div 64, 128 + n mod 64]) s)"

definition unescape_encodeURIComponent :: "string \<Rightarrow> string" where
  "unescape_encodeURIComponent s = map char_of (utf8_bytes s)"

definition Buffer_from :: "string \<Rightarrow> nat list" where
  "Buffer_from s = utf8_bytes s"

definition base64_char :: "nat \<Rightarrow> char" where
  "base64_char n =
     ''ABCDEFGHIJKLMNOPQRSTUVWXYZabcdefghijklmnopqrstuvwxyz0123456789+/'' ! n"

fun base64 :: "nat list \<Rightarrow> string" where
  "base64 [] = []"
| "base64 [a] =
     [base64_char (a div 4), base64_char ((a mod 4) * 16), CHR ''='', CHR ''='']"
| "base64 [a, b] =
     [base64_char (a div 4), base64_char ((a mod 4) * 16 + b div 16),
      base64_char ((b mod 16) * 4), CHR ''='']"
| "base64 (a # b # c # bs) =
     [base64_char (a div 4), base64_char ((a mod 4) * 16 + b div 16),
      base64_char ((b mod 16) * 4 + c div 64), base64_char (c mod 64)] @ base64 bs"

definition keypairToAuth :: "jsval \<Rightarrow> jsval \<Rightarrow> string" where
  "keypairToAuth key secret =
     ''Basic '' @ base64 (Buffer_from (unescape_encodeURIComponent
                    (to_string key @ '':'' @ to_string secret)))"

subsection \<open>The program\<close>

text \<open>\<open>Number.MAX_VALUE\<close>, the largest finite number.\<close>

definition MAX_VALUE :: int where
  "MAX_VALUE = (2 ^ 53 - 1) * 2 ^ 971"

text \<open>The options of the command line, and their values when none is given.\<close>

record options =
  opt_key :: string
  opt_keyfile :: string
  opt_type :: string
  opt_property :: string
  opt_filter :: string
  opt_greater :: jsval
  opt_less :: jsval
  opt_debug :: bool

definition default_options :: options where
  "default_options =
     \<lparr>opt_key = ''localhost'', opt_keyfile = ''keypairs.json'', opt_type = ''Experiment'',
      opt_property = ''files.@id'', opt_filter = '''', opt_greater = JStr ''1'',
      opt_less = JNum MAX_VALUE, opt_debug = False\<rparr>"

text \<open>
  The body of the script, after the keyfile has been read and parsed into \<open>keyFileData\<close>:
  it computes the authorization string, runs \<open>getAllChunks\<close> and prints the results. An
  exception anywhere rejects the promise chain, whose rejection nobody handles.
\<close>

definition main ::
  "(jsval \<Rightarrow> string \<Rightarrow> jsval) \<Rightarrow> (string \<Rightarrow> jsnum) \<Rightarrow> options \<Rightarrow> jsval \<Rightarrow> (nat \<Rightarrow> response)
     \<Rightarrow> (event list \<times> (error + unit)) option" where
  "main proto s2n program keyFileData server =
     (case get_prop proto keyFileData (opt_key program) of
        Inl e \<Rightarrow> Some ([], Inl e)
      | Inr target \<Rightarrow>
         (case (get_prop proto target ''key'', get_prop proto target ''secret'', get_prop proto target ''server'') of
            (Inr k, Inr s, Inr host) \<Rightarrow>
              (case getAllChunks proto s2n (to_string host) (keypairToAuth k s) (opt_type program)
                      (opt_property program) (opt_filter program) (opt_less program)
                      (opt_greater program) (opt_debug program) server of
                 None \<Rightarrow> None
               | Some (tr, Inl e) \<Rightarrow> Some (tr, Inl e)
               | Some (tr, Inr searchResults) \<Rightarrow>
                   Some (tr @ [ProgressStop,
                               Print (CHR 0x0A # dec_nat (length searchResults) @ '' results'')]
                            @ map Print searchResults, Inr ()))
          | _ \<Rightarrow> Some ([], Inl TypeError)))"

section \<open>Notions used to state the properties\<close>

text \<open>The requests among the events, in the order they were sent.\<close>

fun requests :: "event list \<Rightarrow> request list" where
  "requests [] = []"
| "requests (Fetch r # es) = r # requests es"
| "requests (e # es) = requests es"

text \<open>
  The encoding of one character of the field path as the specification words it:
  parentheses percent-escaped, the colon literal, the space as a plus sign, and every other
  character as \<open>encodeURIComponent\<close> leaves it.
\<close>

definition spec_field_encoding :: "char \<Rightarrow> string" where
  "spec_field_encoding c =
     (if c = CHR ''('' then ''%28''
      else if c = CHR '')'' then ''%29''
      else if c = CHR '':'' then '':''
      else if c = CHR '' '' then ''+''
      else uri_escape c)"

text \<open>
  The output of \<open>encodeURIComponent\<close> is a sequence of tokens: a single character other
  than the percent sign, or a percent sign with two hexadecimal digits.
\<close>

definition hexd :: "char \<Rightarrow> bool" where
  "hexd c \<longleftrightarrow> c \<in> set ''0123456789ABCDEF''"

fun tok :: "string \<Rightarrow> bool" where
  "tok [c] = (c \<noteq> CHR ''%'')"
| "tok [p, a, b] = (p = CHR ''%'' \<and> hexd a \<and> hexd b)"
| "tok t = False"

definition uri_tokens :: "char \<Rightarrow> string list" where
  "uri_tokens c =
     (let n = (of_char c :: nat) in
      if uri_unreserved c then [[c]]
      else if n < 128 then [pct n]
      else [pct (192 + n div 64), pct (128 + n mod 64)])"

definition subst_tok :: "string \<Rightarrow> string \<Rightarrow> string \<Rightarrow> string" where
  "subst_tok pat rep t = (if t = pat then rep else t)"










text \<open>The events after one turn of the loop, whatever its outcome.\<close>

fun step_trace :: "step \<Rightarrow> event list" where
  "step_trace (Crash e tr) = tr"
| "step_trace (Return st) = trace st"
| "step_trace (Continue st) = trace st"


text \<open>The headers of every request.\<close>

definition sent_headers :: "(string \<times> string) list" where
  "sent_headers = [(''Accept'', ''application/json''), (''Content-Type'', ''application/json'')]"

subsection \<open>Sample data\<close>

text \<open>
  Data for concrete runs: a page with a total and records, a server that gives a list of
  responses and then one response forever, a conversion of strings of decimal digits to
  numbers as the runtime does it, a keyfile and some records. The sample prototype chain
  knows one inherited member, the \<open>constructor\<close> of an object, which is the function
  \<open>Object\<close> with its \<open>length\<close> 1 and its \<open>name\<close>; every other name reads as
  \<open>undefined\<close>.
\<close>

definition Object_function :: jsval where
  "Object_function = JBuiltin 0 ''function Object() { [native code] }''"

definition sample_proto :: "jsval \<Rightarrow> string \<Rightarrow> jsval" where
  "sample_proto v key =
     (case v of
        JObj kvs \<Rightarrow> if key = ''constructor'' then Object_function else JUndefined
      | JBuiltin h s \<Rightarrow>
          if v = Object_function \<and> key = ''length'' then JNum 1
          else if v = Object_function \<and> key = ''name'' then JStr ''Object''
          else JUndefined
      | _ \<Rightarrow> JUndefined)"

definition page :: "jsval \<Rightarrow> jsval list \<Rightarrow> response" where
  "page t recs = HttpResponse True (Some (JObj [(''total'', t), (''@graph'', JArr recs)]))"

definition serve :: "response list \<Rightarrow> response \<Rightarrow> nat \<Rightarrow> response" where
  "serve rs d n = (if n < length rs then rs ! n else d)"

definition sample_s2n :: "string \<Rightarrow> jsnum" where
  "sample_s2n s =
     (if s = [] then Fin 0
      else if list_all (\<lambda>c. c \<in> set ''0123456789'') s
      then Fin (of_nat (foldl (\<lambda>a c. 10 * a + (of_char c - 48)) 0 s))
      else NaN)"

definition sample_record :: jsval where
  "sample_record = JObj [(''@id'', JStr ''/exp/1''), (''files'', JArr [JStr ''a'', JStr ''b''])]"

definition sample_keyfile :: jsval where
  "sample_keyfile =
     JObj [(''localhost'',
            JObj [(''key'', JStr ''key''), (''secret'', JStr ''secret''),
                  (''server'', JStr ''http://localhost:6543'')])]"

definition empty_status_record :: jsval where
  "empty_status_record = JObj [(''@id'', JStr ''/exp/1''), (''status'', JStr [])]"


definition object_files_record :: jsval where
  "object_files_record = JObj [(''@id'', JStr ''/exp/4''), (''files'', JObj [(''href'', JStr ''/f'')])]"

definition length_true_record :: jsval where
  "length_true_record =
     JObj [(''@id'', JStr ''/exp/7''), (''files'', JObj [(''length'', JBool True)])]"

definition status_record :: jsval where
  "status_record = JObj [(''@id'', JStr ''/exp/3''), (''status'', JStr ''released'')]"

section \<open>The request URL\<close>

lemma uri_escape_tokens: "uri_escape c = concat (uri_tokens c)"
  by (simp add: uri_escape_def uri_tokens_def Let_def)

lemma uri_tokens_tok: "\<forall>c. list_all tok (uri_tokens c)"
  by code_simp

lemma replace_char_tokens:
  assumes "c \<noteq> CHR ''%''" "\<not> hexd c" "list_all tok ts"
  shows "replace_all [c] r (concat ts) = concat (map (subst_tok [c] r) ts)"
  using assms(3)
proof (induction ts)
  case Nil
  show ?case by simp
next
  case (Cons t ts)
  from Cons.prems have t: "tok t" and ts: "list_all tok ts" by simp_all
  from t show ?case
  proof (cases t rule: tok.cases)
    case (1 x)
    with Cons.IH ts show ?thesis by (simp add: subst_tok_def)
  next
    case (2 p a b)
    with t assms Cons.IH ts show ?thesis by (auto simp add: subst_tok_def)
  qed simp_all
qed

lemma replace_triple_tokens:
  assumes "hexd a" "hexd b" "list_all tok ts"
  shows "replace_all [CHR ''%'', a, b] r (concat ts) =
         concat (map (subst_tok [CHR ''%'', a, b] r) ts)"
  using assms(3)
proof (induction ts)
  case Nil
  show ?case by simp
next
  case (Cons t ts)
  from Cons.prems have t: "tok t" and ts: "list_all tok ts" by simp_all
  have nh: "\<not> hexd CHR ''%''" by (simp add: hexd_def)
  from t show ?case
  proof (cases t rule: tok.cases)
    case (1 x)
    with t Cons.IH ts show ?thesis by (simp add: subst_tok_def)
  next
    case (2 p x y)
    with t assms nh Cons.IH ts show ?thesis by (auto simp add: subst_tok_def)
  qed simp_all
qed

lemma subst_tok_tok:
  "tok rep \<Longrightarrow> list_all tok ts \<Longrightarrow> list_all tok (map (subst_tok pat rep) ts)"
  by (induction ts) (simp_all add: subst_tok_def)

lemma subst_chain_per_char:
  "\<forall>c. concat (map (subst_tok ''%20'' ''+'') (map (subst_tok ''%3A'' '':'')
     (map (subst_tok '')'' ''%29'') (map (subst_tok ''('' ''%28'') (uri_tokens c)))))
   = spec_field_encoding c"
  by code_simp

lemma encodeURIComponent_tokens:
  "encodeURIComponent v = concat (concat (map uri_tokens v))"
  by (induction v) (simp_all add: encodeURIComponent_def uri_escape_tokens)

lemma all_uri_tokens: "list_all tok (concat (map uri_tokens v))"
  using uri_tokens_tok by (induction v) simp_all

lemma encodedURIComponent_per_char:
  "encodedURIComponent v = concat (map spec_field_encoding v)"
proof -
  let ?T0 = "concat (map uri_tokens v)"
  let ?T1 = "map (subst_tok ''('' ''%28'') ?T0"
  let ?T2 = "map (subst_tok '')'' ''%29'') ?T1"
  let ?T3 = "map (subst_tok ''%3A'' '':'') ?T2"
  let ?T4 = "map (subst_tok ''%20'' ''+'') ?T3"
  have t0: "list_all tok ?T0" by (rule all_uri_tokens)
  have t1: "list_all tok ?T1" by (rule subst_tok_tok [OF _ t0]) (simp add: hexd_def)
  have t2: "list_all tok ?T2" by (rule subst_tok_tok [OF _ t1]) (simp add: hexd_def)
  have t3: "list_all tok ?T3" by (rule subst_tok_tok [OF _ t2]) simp
  have s1: "replace_all ''('' ''%28'' (encodeURIComponent v) = concat ?T1"
    unfolding encodeURIComponent_tokens
    by (rule replace_char_tokens [OF _ _ t0]) (simp_all add: hexd_def)
  have s2: "replace_all '')'' ''%29'' (concat ?T1) = concat ?T2"
    by (rule replace_char_tokens [OF _ _ t1]) (simp_all add: hexd_def)
  have s3: "replace_all ''%3A'' '':'' (concat ?T2) = concat ?T3"
    by (rule replace_triple_tokens [OF _ _ t2]) (simp_all add: hexd_def)
  have s4: "replace_all ''%20'' ''+'' (concat ?T3) = concat ?T4"
    by (rule replace_triple_tokens [OF _ _ t3]) (simp_all add: hexd_def)
  have "encodedURIComponent v = concat ?T4"
    by (simp only: encodedURIComponent_def s1 s2 s3 s4)
  also have "\<dots> = concat (map (\<lambda>c. concat (map (subst_tok ''%20'' ''+'')
       (map (subst_tok ''%3A'' '':'') (map (subst_tok '')'' ''%29'')
         (map (subst_tok ''('' ''%28'') (uri_tokens c)))))) v)"
    by (induction v) simp_all
  also have "\<dots> = concat (map spec_field_encoding v)"
    using subst_chain_per_char by simp
  finally show ?thesis .
qed

lemma dec_nat_CHUNK_SIZE: "dec_nat CHUNK_SIZE = ''500''"
  by (simp add: CHUNK_SIZE_def dec_nat.simps digit_char_def)

lemma requests_append: "requests (xs @ ys) = requests xs @ requests ys"
  by (induction xs rule: requests.induct) simp_all

lemma requests_getChunk:
  "requests (fst (getChunk host auth type field filters from' debug resp)) =
     [\<lparr>url = searchUrl host type field filters from', http_method = ''GET'',
       headers = [(''Accept'', ''application/json''),
                  (''Content-Type'', ''application/json'')]\<rparr>]"
  by (cases resp) (simp_all add: getChunk_def Let_def requests_append)

text \<open>
  C7. For every host, type, filter string, offset and field path, the one request that
  \<open>getChunk\<close> sends goes to
  \<open>{host}/report/?type={type}&{filters}&limit=500&from={offset}&field={encoded field}\<close>,
  the \<open>&{filters}\<close> segment left out when the filter string is empty, and the field path
  is encoded character by character: \<open>(\<close> and \<open>)\<close> as \<open>%28\<close> and \<open>%29\<close>, the colon
  as itself, the space as \<open>+\<close>, every other character as \<open>encodeURIComponent\<close> writes
  it.
\<close>

theorem C7_request_url:
  "map url (requests (fst (getChunk host auth type field filters from' debug resp))) =
     [host @ ''/report/?type='' @ type
        @ (if filters = [] then [] else ''&'' @ filters)
        @ ''&limit=500'' @ ''&from='' @ dec_nat from'
        @ ''&field='' @ concat (map spec_field_encoding field)]
   \<and> spec_field_encoding CHR ''('' = ''%28''
   \<and> spec_field_encoding CHR '')'' = ''%29''
   \<and> spec_field_encoding CHR '':'' = '':''
   \<and> spec_field_encoding CHR '' '' = ''+''"
  by (simp add: requests_getChunk searchUrl_def dec_nat_CHUNK_SIZE
      encodedURIComponent_per_char spec_field_encoding_def)

theorem C7_request_url_witness:
  "map url (requests (fst (getChunk ''https://h'' ''Basic a2V5'' ''Experiment''
       ''files.(x):y z'' ''status=released'' 500 False NetworkError))) =
     [''https://h/report/?type=Experiment&status=released&limit=500&from=500&field=files.%28x%29:y+z'']"
  using C7_request_url [of "''https://h''" "''Basic a2V5''" "''Experiment''"
      "''files.(x):y z''" "''status=released''" 500 False NetworkError]
  by (simp add: spec_field_encoding_def uri_escape_def uri_unreserved_def
      dec_nat.simps digit_char_def)

section \<open>The fetch loop\<close>




































lemma requests_loop_body:
  "requests (step_trace (loop_body proto s2n host auth type field filters less' greater' debug r st)) =
     requests (trace st) @
       [\<lparr>url = searchUrl host type field filters (from_ix st), http_method = ''GET'',
         headers = sent_headers\<rparr>]"
proof -
  obtain evs chunk where gc:
    "getChunk host auth type field filters (from_ix st) debug r = (evs, chunk)"
    by (cases "getChunk host auth type field filters (from_ix st) debug r")
  have "requests evs = [\<lparr>url = searchUrl host type field filters (from_ix st),
      http_method = ''GET'', headers = sent_headers\<rparr>]"
    using requests_getChunk [of host auth type field filters "from_ix st" debug r] gc
    by (simp add: sent_headers_def)
  then show ?thesis
    by (auto simp add: loop_body_def gc requests_append Let_def
        split: sum.splits jsval.splits)
qed

lemma requests_loop_run:
  assumes "getAllChunks_loop proto s2n host auth type field filters less' greater' debug server n st = Some y"
  shows "(\<forall>r \<in> set (requests (trace st)). headers r = sent_headers) \<longrightarrow>
         (\<forall>r \<in> set (requests (fst y)). headers r = sent_headers)"
proof (rule getAllChunks_loop.raw_induct
    [where P = "\<lambda>proto s2n host auth type field filters less' greater' debug server n st y.
        (\<forall>r \<in> set (requests (trace st)). headers r = sent_headers) \<longrightarrow>
        (\<forall>r \<in> set (requests (fst y)). headers r = sent_headers)", OF _ assms], goal_cases)
  case (1 loop proto s2n host auth type field filters less' greater' debug server n st y)
  let ?b = "loop_body proto s2n host auth type field filters less' greater' debug (server n) st"
  have inv: "(\<forall>r \<in> set (requests (trace st)). headers r = sent_headers) \<Longrightarrow>
      (\<forall>r \<in> set (requests (step_trace ?b)). headers r = sent_headers)"
    by (simp add: requests_loop_body)
  show ?case
  proof (cases ?b)
    case (Crash e tr)
    with 1(2) inv show ?thesis by auto
  next
    case (Return st')
    with 1(2) inv show ?thesis by auto
  next
    case (Continue st')
    with 1(2) have "loop proto s2n host auth type field filters less' greater' debug server (Suc n) st' = Some y"
      by simp
    from 1(1) [OF this] inv Continue show ?thesis by simp
  qed
qed

lemma requests_map_Print: "requests (map Print xs) = []"
  by (induction xs) simp_all

lemma getAllChunks_headers:
  assumes "getAllChunks proto s2n host auth type field filters less' greater' debug server = Some (tr, out)"
  shows "\<forall>r \<in> set (requests tr). headers r = sent_headers"
  using requests_loop_run [of proto s2n host auth type field filters less' greater' debug server 0
      "\<lparr>from_ix = 0, total = JNum 0, results = [], trace = []\<rparr>" "(tr, out)"] assms
  by (simp add: getAllChunks_def)

lemma main_headers:
  assumes "main proto s2n program keyFileData server = Some (tr, out)"
  shows "\<forall>r \<in> set (requests tr). headers r = sent_headers"
  using assms getAllChunks_headers
  by (auto simp add: main_def requests_append requests_map_Print
      split: sum.splits option.splits prod.splits)

text \<open>
  C10. Every request of a run carries exactly the headers \<open>Accept: application/json\<close> and
  \<open>Content-Type: application/json\<close> and no \<open>Authorization\<close> header. This holds for
  \<open>getAllChunks\<close> with any authorization string passed in, and for the whole program,
  which computes that string from the key and the secret of the keyfile and passes it on.
\<close>

theorem C10_request_headers:
  "(getAllChunks proto s2n host auth type field filters less' greater' debug server = Some (tr, out) \<longrightarrow>
     (\<forall>r \<in> set (requests tr).
        headers r = [(''Accept'', ''application/json''), (''Content-Type'', ''application/json'')]
        \<and> map_of (headers r) ''Authorization'' = None))
   \<and> (main proto s2n program keyFileData server = Some (tr', out') \<longrightarrow>
     (\<forall>r \<in> set (requests tr').
        headers r = [(''Accept'', ''application/json''), (''Content-Type'', ''application/json'')]
        \<and> map_of (headers r) ''Authorization'' = None))"
  using getAllChunks_headers [of proto s2n host auth type field filters less' greater' debug server tr out]
    main_headers [of proto s2n program keyFileData server tr' out']
  by (simp add: sent_headers_def)

lemma sample_main_run:
  "main sample_proto sample_s2n default_options sample_keyfile
     (serve [page (JNum 1) [sample_record], page (JNum 1) []] NetworkError) =
   Some ([Fetch \<lparr>url = ''http://localhost:6543/report/?type=Experiment&limit=500&from=0&field=files.%40id'',
                  http_method = ''GET'',
                  headers = [(''Accept'', ''application/json''), (''Content-Type'', ''application/json'')]\<rparr>,
          ProgressStart (JNum 1) 0, ProgressUpdate 500,
          Fetch \<lparr>url = ''http://localhost:6543/report/?type=Experiment&limit=500&from=500&field=files.%40id'',
                  http_method = ''GET'',
                  headers = [(''Accept'', ''application/json''), (''Content-Type'', ''application/json'')]\<rparr>,
          ProgressStop, Print (CHR 0x0A # ''1 results''), Print ''/exp/1 - 2''], Inr ())"
  by code_simp

theorem C10_request_headers_witness:
  "keypairToAuth (JStr ''key'') (JStr ''secret'') = ''Basic a2V5OnNlY3JldA==''
   \<and> (\<exists>tr. main sample_proto sample_s2n default_options sample_keyfile
              (serve [page (JNum 1) [sample_record], page (JNum 1) []] NetworkError) = Some (tr, Inr ())
          \<and> length (requests tr) = 2
          \<and> (\<forall>r \<in> set (requests tr). map_of (headers r) ''Authorization'' = None))"
proof -
  have k: "keypairToAuth (JStr ''key'') (JStr ''secret'') = ''Basic a2V5OnNlY3JldA==''"
    by code_simp
  obtain tr where run: "main sample_proto sample_s2n default_options sample_keyfile
      (serve [page (JNum 1) [sample_record], page (JNum 1) []] NetworkError) = Some (tr, Inr ())"
    and n: "length (requests tr) = 2"
    using sample_main_run by simp
  from C10_request_headers [where proto = sample_proto and proto = sample_proto and s2n = sample_s2n and program = default_options
      and keyFileData = sample_keyfile and tr' = tr and out' = "Inr ()"
      and server = "serve [page (JNum 1) [sample_record], page (JNum 1) []] NetworkError"] run
  have h: "\<forall>r \<in> set (requests tr). map_of (headers r) ''Authorization'' = None"
    by simp
  from k run n h show ?thesis by blast
qed
















lemma lengthField_files_id: "lengthField ''files.@id'' = ''files''"
  by (simp add: lengthField_def includes_char_def substring0_def)



section \<open>Records and bounds\<close>

lemma lastIndexOf_absent: "c \<notin> set s \<Longrightarrow> lastIndexOf s c = - 1"
  by (induction s) (auto simp add: Let_def)

lemma lastIndexOf_present:
  "c \<in> set s \<Longrightarrow>
   0 \<le> lastIndexOf s c \<and> (\<exists>seg. c \<notin> set seg \<and> s = take (nat (lastIndexOf s c)) s @ c # seg)"
proof (induction s)
  case Nil
  then show ?case by simp
next
  case (Cons x xs)
  show ?case
  proof (cases "c \<in> set xs")
    case True
    with Cons.IH obtain seg where nn: "0 \<le> lastIndexOf xs c" and seg: "c \<notin> set seg"
      and xs: "xs = take (nat (lastIndexOf xs c)) xs @ c # seg"
      by blast
    have n: "nat (lastIndexOf xs c + 1) = Suc (nat (lastIndexOf xs c))"
      using nn by simp
    have "x # xs = take (nat (lastIndexOf (x # xs) c)) (x # xs) @ c # seg"
      using nn xs by (simp add: Let_def n)
    with nn seg show ?thesis by (auto simp add: Let_def)
  next
    case False
    with Cons.prems have "x = c" by simp
    with False show ?thesis by (simp add: Let_def lastIndexOf_absent)
  qed
qed

lemma lengthField_parent_path:
  "(CHR ''.'' \<in> set p \<longrightarrow> (\<exists>seg. CHR ''.'' \<notin> set seg \<and> p = lengthField p @ ''.'' @ seg))
   \<and> (CHR ''.'' \<notin> set p \<longrightarrow> lengthField p = p)"
  using lastIndexOf_present [of "CHR ''.''" p]
  by (auto simp add: lengthField_def includes_char_def substring0_def)

lemma lengthField_first_dotted:
  "CHR ''.'' \<in> set p \<Longrightarrow> lengthField_first p = lengthField p"
  by (simp add: lengthField_def lengthField_first_def includes_char_def)

lemma lengthField_first_undotted:
  "CHR ''.'' \<notin> set p \<Longrightarrow> lengthField_first p = []"
  by (simp add: lengthField_first_def substring0_def lastIndexOf_absent)

text \<open>
  C3. In the script with the \<open>--filter\<close> option the parent path is as claimed
  (\<open>lengthField_parent_path\<close>). The script without that option takes the substring up to
  the last dot without asking whether there is a dot: for the path \<open>status\<close> the parent
  path is empty, not \<open>status\<close>, and the record's own \<open>status\<close> is never measured.
\<close>

theorem C3_first_script_undotted:
  "lengthField_first ''status'' = []
   \<and> getObjectFieldValue sample_proto status_record (lengthField_first ''status'') = Inr JUndefined
   \<and> lengthField ''status'' = ''status''
   \<and> getObjectFieldValue sample_proto status_record (lengthField ''status'') = Inr (JStr ''released'')"
  by (simp add: lengthField_first_def lengthField_def includes_char_def substring0_def
      getObjectFieldValue_def status_record_def sample_proto_def)

lemma foldl_reduce_part_undefined:
  "foldl (reduce_part proto) (Inr JUndefined) ps = Inr JUndefined"
  by (induction ps) (simp_all add: reduce_part_def)

lemma visit_falsy:
  "getObjectFieldValue proto obj (lengthField field) = Inr v \<Longrightarrow> \<not> truthy v \<Longrightarrow>
   visit proto s2n field less' greater' res obj = Inr res"
  by (simp add: visit_def)

lemma js_ge_undefined: "\<not> js_ge s2n JUndefined g"
  by (cases "to_primitive g") (simp_all add: js_ge_def js_lt_def)

lemma num_lt_NaN_right: "num_lt x NaN = None"
  by (cases x) simp_all

lemma js_le_undefined: "\<not> js_le s2n JUndefined l"
  by (cases "to_primitive l") (simp_all add: js_le_def js_lt_def num_lt_NaN_right)

lemma visit_no_length:
  "getObjectFieldValue proto obj (lengthField field) = Inr v \<Longrightarrow>
   get_prop proto v ''length'' = Inr JUndefined \<Longrightarrow>
   visit proto s2n field less' greater' res obj = Inr res"
  by (simp add: visit_def js_ge_undefined)

text \<open>
  C4, as the code has it. A record whose value at the parent path resolves to
  \<open>undefined\<close> adds nothing to the results, whatever the bounds. The value is \<open>undefined\<close>
  as soon as walking some first keys of a dotted path gives \<open>undefined\<close>. A key that an
  object does not have reads as \<open>undefined\<close> when the prototype chain has no member of
  that name either.
\<close>

theorem C4_absent_value:
  "(getObjectFieldValue proto obj (lengthField field) = Inr JUndefined \<longrightarrow>
      visit proto s2n field less' greater' res obj = Inr res)
   \<and> (length (split_dot f) \<noteq> 1
        \<and> foldl (reduce_part proto) (Inr obj) (take i (split_dot f)) = Inr JUndefined \<longrightarrow>
      getObjectFieldValue proto obj f = Inr JUndefined)
   \<and> (map_of kvs key = None \<and> proto (JObj kvs) key = JUndefined \<longrightarrow>
      get_prop proto (JObj kvs) key = Inr JUndefined)"
proof (intro conjI impI)
  assume "getObjectFieldValue proto obj (lengthField field) = Inr JUndefined"
  then show "visit proto s2n field less' greater' res obj = Inr res"
    by (rule visit_falsy) simp
next
  assume a: "length (split_dot f) \<noteq> 1
        \<and> foldl (reduce_part proto) (Inr obj) (take i (split_dot f)) = Inr JUndefined"
  have "foldl (reduce_part proto) (Inr obj) (split_dot f) =
        foldl (reduce_part proto) (foldl (reduce_part proto) (Inr obj) (take i (split_dot f)))
          (drop i (split_dot f))"
    by (simp only: foldl_append [symmetric] append_take_drop_id)
  with a show "getObjectFieldValue proto obj f = Inr JUndefined"
    by (simp add: getObjectFieldValue_def foldl_reduce_part_undefined)
next
  assume "map_of kvs key = None \<and> proto (JObj kvs) key = JUndefined"
  then show "get_prop proto (JObj kvs) key = Inr JUndefined" by simp
qed

theorem C4_absent_value_witness:
  "visit sample_proto sample_s2n ''lab.pi.name'' (JNum MAX_VALUE) (JStr ''0'') [''/exp/0 - 7'']
     sample_record = Inr [''/exp/0 - 7'']
   \<and> getObjectFieldValue sample_proto sample_record ''lab.pi'' = Inr JUndefined
   \<and> get_prop sample_proto sample_record ''lab'' = Inr JUndefined"
proof -
  have lf: "lengthField ''lab.pi.name'' = ''lab.pi''"
    by (simp add: lengthField_def includes_char_def substring0_def)
  have k: "get_prop sample_proto sample_record ''lab'' = Inr JUndefined"
    using C4_absent_value [where proto = sample_proto
        and kvs = "[(''@id'', JStr ''/exp/1''), (''files'', JArr [JStr ''a'', JStr ''b''])]"
        and key = "''lab''", THEN conjunct2, THEN conjunct2]
    by (simp add: sample_record_def sample_proto_def)
  have g: "getObjectFieldValue sample_proto sample_record ''lab.pi'' = Inr JUndefined"
    using C4_absent_value [where proto = sample_proto and obj = sample_record
        and f = "''lab.pi''" and i = 1, THEN conjunct2, THEN conjunct1] k
    by (simp add: reduce_part_def sample_record_def)
  have v: "visit sample_proto sample_s2n ''lab.pi.name'' (JNum MAX_VALUE) (JStr ''0'')
      [''/exp/0 - 7''] sample_record = Inr [''/exp/0 - 7'']"
    using C4_absent_value [where obj = sample_record and field = "''lab.pi.name''"
        and proto = sample_proto and s2n = sample_s2n and less' = "JNum MAX_VALUE"
        and greater' = "JStr ''0''" and res = "[''/exp/0 - 7'']", THEN conjunct1] g
    by (simp add: lf)
  from v g k show ?thesis by (intro conjI)
qed

text \<open>
  The sample record has no key \<open>constructor\<close>, but every object inherits a member of that
  name, the function \<open>Object\<close>, whose \<open>length\<close> is 1: with the path \<open>constructor.name\<close> and
  the default bounds the record is reported.
\<close>

theorem C4_absent_value_counterexample:
  "map_of [(''@id'', JStr ''/exp/1''), (''files'', JArr [JStr ''a'', JStr ''b''])] ''constructor'' = None
   \<and> sample_record = JObj [(''@id'', JStr ''/exp/1''), (''files'', JArr [JStr ''a'', JStr ''b''])]
   \<and> getObjectFieldValue sample_proto sample_record (lengthField ''constructor.name'')
       = Inr Object_function
   \<and> getAllChunks sample_proto sample_s2n ''h'' ''a'' ''Experiment'' ''constructor.name'' []
        (opt_less default_options) (opt_greater default_options) False
        (serve [page (JNum 1) [sample_record], page (JNum 1) []] NetworkError) =
      Some ([Fetch \<lparr>url = ''h/report/?type=Experiment&limit=500&from=0&field=constructor.name'',
                     http_method = ''GET'',
                     headers = [(''Accept'', ''application/json''), (''Content-Type'', ''application/json'')]\<rparr>,
             ProgressStart (JNum 1) 0, ProgressUpdate 500,
             Fetch \<lparr>url = ''h/report/?type=Experiment&limit=500&from=500&field=constructor.name'',
                     http_method = ''GET'',
                     headers = [(''Accept'', ''application/json''), (''Content-Type'', ''application/json'')]\<rparr>],
            Inr [''/exp/1 - 1''])"
  by code_simp

text \<open>
  C9, as the code has it. A record whose value at the parent path is falsy (the empty
  string, \<open>0\<close>, \<open>false\<close> and \<open>null\<close> are) adds nothing to the results, whatever the bounds;
  so does a record whose value has no \<open>length\<close> at all, that is, whose \<open>length\<close> reads as
  \<open>undefined\<close>, as for a number or an object without that key: both comparisons with
  \<open>undefined\<close> are false.
\<close>

theorem C9_falsy_or_no_length:
  "(getObjectFieldValue proto obj (lengthField field) = Inr v \<and> \<not> truthy v \<longrightarrow>
      visit proto s2n field less' greater' res obj = Inr res)
   \<and> (getObjectFieldValue proto obj (lengthField field) = Inr v
        \<and> get_prop proto v ''length'' = Inr JUndefined \<longrightarrow>
      visit proto s2n field less' greater' res obj = Inr res)
   \<and> \<not> truthy (JStr []) \<and> \<not> truthy (JNum 0) \<and> \<not> truthy (JBool False) \<and> \<not> truthy JNull
   \<and> get_prop proto (JNum n) ''length'' = Inr JUndefined
   \<and> (map_of kvs ''length'' = None \<longrightarrow> get_prop proto (JObj kvs) ''length'' = Inr JUndefined)
   \<and> \<not> js_ge s2n JUndefined greater' \<and> \<not> js_le s2n JUndefined less'"
  using visit_falsy [of proto obj field v s2n less' greater' res]
    visit_no_length [of proto obj field v s2n less' greater' res]
  by (simp add: js_ge_undefined js_le_undefined)

theorem C9_falsy_or_no_length_witness:
  "js_ge sample_s2n (JNum 0) (JStr ''0'') \<and> js_le sample_s2n (JNum 0) (JNum MAX_VALUE)
   \<and> get_prop sample_proto (JStr []) ''length'' = Inr (JNum 0)
   \<and> visit sample_proto sample_s2n ''status'' (JNum MAX_VALUE) (JStr ''0'') [''/exp/0 - 7''] empty_status_record
       = Inr [''/exp/0 - 7'']
   \<and> visit sample_proto sample_s2n ''files.@id'' (JNum MAX_VALUE) (JStr ''0'') [''/exp/0 - 7''] object_files_record
       = Inr [''/exp/0 - 7'']"
proof -
  note inst = C9_falsy_or_no_length [where proto = sample_proto and proto = sample_proto and s2n = sample_s2n and less' = "JNum MAX_VALUE"
      and greater' = "JStr ''0''" and res = "[''/exp/0 - 7'']"]
  have b: "js_ge sample_s2n (JNum 0) (JStr ''0'')" "js_le sample_s2n (JNum 0) (JNum MAX_VALUE)"
    by (simp_all add: js_ge_def js_le_def js_lt_def sample_s2n_def MAX_VALUE_def)
  have v1: "visit sample_proto sample_s2n ''status'' (JNum MAX_VALUE) (JStr ''0'') [''/exp/0 - 7''] empty_status_record
       = Inr [''/exp/0 - 7'']"
    using inst [where obj = empty_status_record and field = "''status''" and v = "JStr []",
        THEN conjunct1]
    by (simp add: lengthField_def includes_char_def getObjectFieldValue_def empty_status_record_def)
  have v2: "visit sample_proto sample_s2n ''files.@id'' (JNum MAX_VALUE) (JStr ''0'') [''/exp/0 - 7''] object_files_record
       = Inr [''/exp/0 - 7'']"
    using inst [where obj = object_files_record and field = "''files.@id''"
        and v = "JObj [(''href'', JStr ''/f'')]", THEN conjunct2, THEN conjunct1]
    by (simp add: lengthField_files_id getObjectFieldValue_def object_files_record_def)
  from b v1 v2 show ?thesis by simp
qed

text \<open>
  A value that is an object with the key \<open>length\<close> holding \<open>true\<close> has no numeric length,
  yet under the default bounds its record is reported: \<open>true\<close> compares as the number 1.
\<close>

theorem C9_falsy_or_no_length_counterexample:
  "get_prop sample_proto (JObj [(''length'', JBool True)]) ''length'' = Inr (JBool True)
   \<and> getObjectFieldValue sample_proto length_true_record (lengthField ''files.@id'')
       = Inr (JObj [(''length'', JBool True)])
   \<and> getAllChunks sample_proto sample_s2n ''h'' ''a'' ''Experiment'' ''files.@id'' []
        (opt_less default_options) (opt_greater default_options) False
        (serve [page (JNum 1) [length_true_record], page (JNum 1) []] NetworkError) =
      Some ([Fetch \<lparr>url = ''h/report/?type=Experiment&limit=500&from=0&field=files.%40id'',
                     http_method = ''GET'',
                     headers = [(''Accept'', ''application/json''), (''Content-Type'', ''application/json'')]\<rparr>,
             ProgressStart (JNum 1) 0, ProgressUpdate 500,
             Fetch \<lparr>url = ''h/report/?type=Experiment&limit=500&from=500&field=files.%40id'',
                     http_method = ''GET'',
                     headers = [(''Accept'', ''application/json''), (''Content-Type'', ''application/json'')]\<rparr>],
            Inr [''/exp/7 - true''])"
  by code_simp





end
